theory Spec2Isabelle
  imports
    Complex_Main
    "HOL-Library.Option_ord"
    "HOL-Library.Product_Lexorder"
    "HOL-Library.List_Lexorder"
    "HOL-Library.Char_ord"
begin

section \<open>Data model: the tables the production and inventory managers work on\<close>

text \<open>
  The managers of \<^verbatim>\<open>modules/production.py\<close> and \<^verbatim>\<open>modules/inventory.py\<close> keep no state
  of their own: every method is one or more SQL statements against a MySQL database.
  The embedding makes that database an explicit value: one record per table row, one
  list per table (in insertion order), and every method a function of the database.

  Quantities are DECIMAL columns and are modelled as exact rationals. Ids are natural
  numbers. A date is a day number; a nullable column is an \<open>option\<close>. Status and type
  columns are free strings, as in the source. Columns that only hold server timestamps
  (\<^verbatim>\<open>order_date\<close>, \<^verbatim>\<open>created_date\<close>, \<^verbatim>\<open>updated_date\<close>, \<^verbatim>\<open>completion_date\<close>, \<^verbatim>\<open>issue_date\<close>,
  \<^verbatim>\<open>receipt_date\<close>) are left out: no statement modelled here reads them.
\<close>

type_synonym date = nat

record datetime =
  dt_year :: nat
  dt_month :: nat
  dt_day :: nat
  dt_hour :: nat
  dt_minute :: nat
  dt_second :: nat
  dt_microsecond :: nat

record product =
  p_id :: nat
  p_name :: string

record warehouse =
  w_id :: nat
  w_company_id :: "nat option"
  w_delete_flag :: nat

record bom_header =
  bh_id :: nat
  bh_bom_type :: string
  bh_product_id :: nat
  bh_uom :: string
  bh_status :: string
  bh_delete_flag :: nat

record bom_detail =
  bd_bom_header_id :: nat
  bd_material_id :: nat
  bd_material_type :: string
  bd_quantity :: rat
  bd_uom :: string
  bd_scrap_rate :: rat

record manufacturing_order =
  o_id :: nat
  o_entity_id :: "nat option"
  o_order_no :: string
  o_bom_header_id :: nat
  o_product_id :: nat
  o_planned_qty :: rat
  o_produced_qty :: "rat option"
  o_uom :: string
  o_warehouse_id :: nat
  o_target_warehouse_id :: nat
  o_scheduled_date :: date
  o_status :: string
  o_priority :: string
  o_notes :: string
  o_created_by :: nat
  o_delete_flag :: nat

record order_material =
  m_manufacturing_order_id :: nat
  m_material_id :: nat
  m_required_qty :: rat
  m_issued_qty :: rat
  m_uom :: string
  m_status :: string
  m_warehouse_id :: nat

record inventory_history =
  ih_id :: nat
  ih_type :: string
  ih_product_id :: nat
  ih_warehouse_id :: nat
  ih_quantity :: rat
  ih_remain :: rat
  ih_batch_no :: string
  ih_expired_date :: "date option"
  ih_action_detail_id :: nat
  ih_group_id :: string
  ih_created_by :: nat
  ih_delete_flag :: nat

record material_issue =
  mi_id :: nat
  mi_issue_no :: string
  mi_manufacturing_order_id :: nat
  mi_warehouse_id :: nat
  mi_status :: string
  mi_issued_by :: nat
  mi_group_id :: string

record material_issue_detail =
  mid_material_issue_id :: nat
  mid_manufacturing_order_id :: nat
  mid_material_id :: nat
  mid_inventory_history_id :: nat
  mid_batch_no :: string
  mid_quantity :: rat

record production_receipt =
  pr_id :: nat
  pr_receipt_no :: string
  pr_manufacturing_order_id :: nat
  pr_product_id :: nat
  pr_quantity :: rat
  pr_uom :: string
  pr_batch_no :: string
  pr_warehouse_id :: nat
  pr_quality_status :: string
  pr_notes :: string
  pr_created_by :: nat

record db =
  products :: "product list"
  warehouses :: "warehouse list"
  bom_headers :: "bom_header list"
  bom_details :: "bom_detail list"
  manufacturing_orders :: "manufacturing_order list"
  manufacturing_order_materials :: "order_material list"
  inventory_histories :: "inventory_history list"
  material_issues :: "material_issue list"
  material_issue_details :: "material_issue_detail list"
  production_receipts :: "production_receipt list"

text \<open>
  Exceptions are values. \<open>TypeError\<close> is what Python raises when a method subscripts the
  \<^verbatim>\<open>None\<close> that \<^verbatim>\<open>get_order_details\<close> returns for an unknown order;
  \<open>InsufficientStockError\<close> is the error of the allocation routine.
\<close>

datatype error = TypeError | InsufficientStockError

text \<open>
  \<^verbatim>\<open>result.lastrowid\<close> of an INSERT into a table with an AUTO\_INCREMENT key: an id above
  every id of the table.
\<close>

definition lastrowid :: "nat list \<Rightarrow> nat" where
  "lastrowid ids = Suc (fold max ids 0)"

section \<open>Inventory manager: stock by batch and the FEFO preview\<close>

text \<open>
  \<^verbatim>\<open>get_stock_by_batch\<close>: the rows of \<^verbatim>\<open>inventory_histories\<close> of the product and warehouse
  with \<^verbatim>\<open>remain > 0\<close> and \<^verbatim>\<open>delete_flag = 0\<close>, grouped by \<^verbatim>\<open>(batch_no, expired_date)\<close> with
  \<^verbatim>\<open>SUM(remain)\<close>, in the order \<^verbatim>\<open>ORDER BY expired_date ASC, batch_no ASC\<close>.

  MySQL sorts NULL before every value in ascending order. The order on \<open>option\<close> of
  \<^verbatim>\<open>HOL-Library.Option_ord\<close> is the same (\<open>None\<close> is least), pairs are compared
  lexicographically, and batch numbers as strings byte by byte.

  The method returns the frame that \<^verbatim>\<open>pd.read_sql\<close> builds, and \<^verbatim>\<open>pd.read_sql\<close> hands a
  DECIMAL column over as float64. The parameter \<open>float64\<close> stands for that conversion:
  it maps an exact quantity to the float64 number nearest to it. MySQL computes
  \<^verbatim>\<open>SUM(remain)\<close> exactly; the frame holds the converted sum.
\<close>

record batch_row =
  br_batch_no :: string
  br_available_qty :: rat
  br_expired_date :: "date option"
  br_expiry_status :: string

definition expiry_status :: "date \<Rightarrow> date option \<Rightarrow> string" where
  "expiry_status today e =
     (case e of
        None \<Rightarrow> ''OK''
      | Some x \<Rightarrow>
          if x < today then ''EXPIRED''
          else if x \<le> today + 7 then ''CRITICAL''
          else if x \<le> today + 30 then ''WARNING''
          else ''OK'')"

definition stock_rows :: "db \<Rightarrow> nat \<Rightarrow> nat \<Rightarrow> inventory_history list" where
  "stock_rows d product_id warehouse_id =
     filter (\<lambda>h. ih_product_id h = product_id \<and> ih_warehouse_id h = warehouse_id
                 \<and> 0 < ih_remain h \<and> ih_delete_flag h = 0)
       (inventory_histories d)"

definition batch_key :: "inventory_history \<Rightarrow> date option \<times> string" where
  "batch_key h = (ih_expired_date h, ih_batch_no h)"

definition batch_group ::
  "(rat \<Rightarrow> rat) \<Rightarrow> date \<Rightarrow> inventory_history list \<Rightarrow> date option \<times> string \<Rightarrow> batch_row" where
  "batch_group float64 today rows k =
     \<lparr>br_batch_no = snd k,
      br_available_qty = float64 (sum_list (map ih_remain (filter (\<lambda>h. batch_key h = k) rows))),
      br_expired_date = fst k,
      br_expiry_status = expiry_status today (fst k)\<rparr>"

definition get_stock_by_batch ::
  "(rat \<Rightarrow> rat) \<Rightarrow> date \<Rightarrow> db \<Rightarrow> nat \<Rightarrow> nat \<Rightarrow> batch_row list" where
  "get_stock_by_batch float64 today d product_id warehouse_id =
     (let rows = stock_rows d product_id warehouse_id
      in map (batch_group float64 today rows) (sort (remdups (map batch_key rows))))"

text \<open>
  \<^verbatim>\<open>preview_fefo_issue\<close>: the loop over the batches, then the method. The method returns
  a data frame and writes nothing; the model returns the rows of that frame.

  The loop runs in Python on float64 values: \<^verbatim>\<open>batch['available_qty']\<close> is the converted
  sum of the frame, and the quantity asked for is a number of Python, taken here as the
  float64 number it is. \<^verbatim>\<open>min\<close> and \<^verbatim>\<open><=\<close> compare exactly and \<^verbatim>\<open>min\<close> returns one of
  its arguments; \<^verbatim>\<open>remaining_qty -= take_qty\<close> is the subtraction of float64, which is the
  exact difference converted to the nearest float64.
\<close>

record selected_batch =
  sb_batch_no :: string
  sb_quantity :: rat
  sb_expired_date :: "date option"
  sb_expiry_status :: string

fun preview_fefo_loop :: "(rat \<Rightarrow> rat) \<Rightarrow> rat \<Rightarrow> batch_row list \<Rightarrow> selected_batch list" where
  "preview_fefo_loop float64 remaining_qty [] = []"
| "preview_fefo_loop float64 remaining_qty (batch # batches) =
     (if remaining_qty \<le> 0 then []
      else
        let take_qty = min remaining_qty (br_available_qty batch)
        in \<lparr>sb_batch_no = br_batch_no batch,
            sb_quantity = take_qty,
            sb_expired_date = br_expired_date batch,
            sb_expiry_status = br_expiry_status batch\<rparr>
           # preview_fefo_loop float64 (float64 (remaining_qty - take_qty)) batches)"

definition preview_fefo_issue ::
  "(rat \<Rightarrow> rat) \<Rightarrow> date \<Rightarrow> db \<Rightarrow> nat \<Rightarrow> rat \<Rightarrow> nat \<Rightarrow> selected_batch list" where
  "preview_fefo_issue float64 today d product_id quantity warehouse_id =
     (let batches = get_stock_by_batch float64 today d product_id warehouse_id
      in if batches = [] then [] else preview_fefo_loop float64 quantity batches)"

text \<open>The stock the preview can draw on: the sum of \<^verbatim>\<open>remain\<close> over the selected rows.\<close>

definition total_available :: "db \<Rightarrow> nat \<Rightarrow> nat \<Rightarrow> rat" where
  "total_available d product_id warehouse_id =
     sum_list (map ih_remain (stock_rows d product_id warehouse_id))"

section \<open>Production manager\<close>

subsection \<open>Numbers\<close>

text \<open>
  \<^verbatim>\<open>datetime.now().strftime('%Y%m%d%H%M%S')\<close>: the clock is a parameter; the format
  prints year (four digits), month, day, hour, minute and second (two digits each) and
  drops the microseconds. A valid \<^verbatim>\<open>datetime\<close> has a year below 10000 and the other
  fields below 100.
\<close>

definition digit :: "nat \<Rightarrow> char" where
  "digit n = ''0123456789'' ! (n mod 10)"

fun zero_padded :: "nat \<Rightarrow> nat \<Rightarrow> string" where
  "zero_padded 0 n = []"
| "zero_padded (Suc w) n = zero_padded w (n div 10) @ [digit n]"

definition strftime :: "datetime \<Rightarrow> string" where
  "strftime t =
     zero_padded 4 (dt_year t) @ zero_padded 2 (dt_month t) @ zero_padded 2 (dt_day t)
     @ zero_padded 2 (dt_hour t) @ zero_padded 2 (dt_minute t) @ zero_padded 2 (dt_second t)"

definition generate_order_number :: "datetime \<Rightarrow> string" where
  "generate_order_number now = ''MO-'' @ strftime now"

definition generate_issue_number :: "datetime \<Rightarrow> string" where
  "generate_issue_number now = ''MI-'' @ strftime now"

definition generate_receipt_number :: "datetime \<Rightarrow> string" where
  "generate_receipt_number now = ''PR-'' @ strftime now"

subsection \<open>Queries\<close>

text \<open>
  An inner join is a nested loop over the joined tables; string comparison in a
  \<^verbatim>\<open>WHERE\<close> clause is equality. \<^verbatim>\<open>get_order_details\<close> returns the first row of its
  join, or \<^verbatim>\<open>None\<close>; of the joined row the model keeps the order and its BOM header
  (for \<^verbatim>\<open>bom_type\<close>). The left join with companies drops no row.
\<close>

definition order_join :: "db \<Rightarrow> (manufacturing_order \<times> bom_header) list" where
  "order_join d =
     [(mo, b). mo \<leftarrow> manufacturing_orders d, p \<leftarrow> products d, b \<leftarrow> bom_headers d,
              w1 \<leftarrow> warehouses d, w2 \<leftarrow> warehouses d,
              o_product_id mo = p_id p \<and> o_bom_header_id mo = bh_id b
              \<and> o_warehouse_id mo = w_id w1 \<and> o_target_warehouse_id mo = w_id w2]"

definition get_order_details :: "db \<Rightarrow> nat \<Rightarrow> (manufacturing_order \<times> bom_header) option" where
  "get_order_details d order_id =
     (case filter (\<lambda>(mo, b). o_id mo = order_id) (order_join d) of
        [] \<Rightarrow> None
      | r # _ \<Rightarrow> Some r)"


text \<open>\<^verbatim>\<open>get_order_materials\<close>: the requirement rows of the order joined with their product, by product name.\<close>

definition get_order_materials :: "db \<Rightarrow> nat \<Rightarrow> (order_material \<times> product) list" where
  "get_order_materials d order_id =
     sort_key (\<lambda>(m, p). p_name p)
       [(m, p). m \<leftarrow> manufacturing_order_materials d, p \<leftarrow> products d,
                m_material_id m = p_id p \<and> m_manufacturing_order_id m = order_id]"

record requirement_row =
  rq_material_id :: nat
  rq_material_name :: string
  rq_required_qty :: rat
  rq_uom :: string
  rq_material_type :: string

definition calculate_material_requirements :: "db \<Rightarrow> nat \<Rightarrow> rat \<Rightarrow> requirement_row list" where
  "calculate_material_requirements d bom_id quantity =
     [\<lparr>rq_material_id = bd_material_id dd,
       rq_material_name = p_name p,
       rq_required_qty = bd_quantity dd * quantity * (1 + bd_scrap_rate dd / 100),
       rq_uom = bd_uom dd,
       rq_material_type = bd_material_type dd\<rparr>.
      dd \<leftarrow> bom_details d, p \<leftarrow> products d,
      bd_material_id dd = p_id p \<and> bd_bom_header_id dd = bom_id]"

subsection \<open>Creating an order\<close>

text \<open>
  Modelled from the spec: the column defaults of \<^verbatim>\<open>manufacturing_order_materials\<close>, whose
  table declaration is not in the source. The INSERT of \<^verbatim>\<open>create_order\<close> names neither
  \<^verbatim>\<open>issued_qty\<close> nor \<^verbatim>\<open>status\<close>; the spec's data model gives a requirement an issued
  quantity and a status in PENDING, ISSUED, and \<^verbatim>\<open>issue_materials\<close> subtracts
  \<^verbatim>\<open>issued_qty\<close> from \<^verbatim>\<open>required_qty\<close> right after creation: nothing issued, pending.
  Likewise a new order has no produced quantity and \<^verbatim>\<open>delete_flag = 0\<close>.
\<close>

definition default_issued_qty :: rat where
  "default_issued_qty = 0"

definition default_material_status :: string where
  "default_material_status = ''PENDING''"

text \<open>
  The argument of \<^verbatim>\<open>create_order\<close> is a dictionary; the keys read with \<^verbatim>\<open>.get\<close> or tested
  with \<^verbatim>\<open>in\<close> are optional.
\<close>

record order_data =
  od_entity_id :: "nat option"
  od_bom_header_id :: nat
  od_product_id :: nat
  od_planned_qty :: rat
  od_uom :: string
  od_warehouse_id :: nat
  od_target_warehouse_id :: nat
  od_scheduled_date :: date
  od_priority :: "string option"
  od_notes :: "string option"
  od_created_by :: nat

text \<open>The \<^verbatim>\<open>INSERT ... SELECT\<close> of the requirement rows from the BOM lines.\<close>

definition materials_insert :: "db \<Rightarrow> nat \<Rightarrow> rat \<Rightarrow> nat \<Rightarrow> nat \<Rightarrow> order_material list" where
  "materials_insert d order_id planned_qty warehouse_id bom_id =
     [\<lparr>m_manufacturing_order_id = order_id,
       m_material_id = bd_material_id dd,
       m_required_qty = bd_quantity dd * planned_qty * (1 + bd_scrap_rate dd / 100),
       m_issued_qty = default_issued_qty,
       m_uom = bd_uom dd,
       m_status = default_material_status,
       m_warehouse_id = warehouse_id\<rparr>.
      dd \<leftarrow> bom_details d, bd_bom_header_id dd = bom_id]"

definition create_order :: "datetime \<Rightarrow> db \<Rightarrow> order_data \<Rightarrow> db \<times> string" where
  "create_order now d order_data =
     (let order_no = generate_order_number now;
          entity_id =
            (case od_entity_id order_data of
               None \<Rightarrow>
                 (case filter (\<lambda>w. w_id w = od_warehouse_id order_data) (warehouses d) of
                    [] \<Rightarrow> None
                  | w # _ \<Rightarrow> w_company_id w)
             | Some e \<Rightarrow> Some e);
          order_id = lastrowid (map o_id (manufacturing_orders d));
          order =
            \<lparr>o_id = order_id,
             o_entity_id = entity_id,
             o_order_no = order_no,
             o_bom_header_id = od_bom_header_id order_data,
             o_product_id = od_product_id order_data,
             o_planned_qty = od_planned_qty order_data,
             o_produced_qty = None,
             o_uom = od_uom order_data,
             o_warehouse_id = od_warehouse_id order_data,
             o_target_warehouse_id = od_target_warehouse_id order_data,
             o_scheduled_date = od_scheduled_date order_data,
             o_status = ''CONFIRMED'',
             o_priority = (case od_priority order_data of None \<Rightarrow> ''NORMAL'' | Some x \<Rightarrow> x),
             o_notes = (case od_notes order_data of None \<Rightarrow> [] | Some x \<Rightarrow> x),
             o_created_by = od_created_by order_data,
             o_delete_flag = 0\<rparr>
      in (d\<lparr>manufacturing_orders := manufacturing_orders d @ [order],
            manufacturing_order_materials :=
              manufacturing_order_materials d
              @ materials_insert d order_id (od_planned_qty order_data)
                  (od_warehouse_id order_data) (od_bom_header_id order_data)\<rparr>,
          order_no))"

subsection \<open>The allocation routine called by \<^verbatim>\<open>issue_materials\<close>\<close>

text \<open>
  Modelled from the spec: the stored procedure \<^verbatim>\<open>sp_issue_material_fefo\<close>, which
  \<^verbatim>\<open>issue_materials\<close> calls once per requirement and whose text is not in the source.
  The spec (4.3) gives its algorithm: fetch the lots of the material and warehouse with
  \<^verbatim>\<open>remain > 0\<close> that are not soft-deleted; sort them ascending by expiry date and batch
  number, a null expiry last; walk the list, taking from each lot the minimum of what is
  still needed and what the lot holds, decrementing the lot, writing a consumption record
  and one outgoing ledger entry that refers to the source lot and the group id; stop when
  nothing more is needed. If the list ends with something still needed, the allocation is
  rejected with \<open>InsufficientStockError\<close> and every decrement of the call is rolled back.
  The outgoing ledger entry holds no stock (\<^verbatim>\<open>remain = 0\<close>).
\<close>

definition fefo_key :: "inventory_history \<Rightarrow> bool \<times> date option \<times> string" where
  "fefo_key h = (ih_expired_date h = None, ih_expired_date h, ih_batch_no h)"

definition fefo_lots :: "db \<Rightarrow> nat \<Rightarrow> nat \<Rightarrow> inventory_history list" where
  "fefo_lots d material_id warehouse_id = sort_key fefo_key (stock_rows d material_id warehouse_id)"

definition consume_lot ::
  "nat \<Rightarrow> nat \<Rightarrow> nat \<Rightarrow> string \<Rightarrow> nat \<Rightarrow> inventory_history \<Rightarrow> rat \<Rightarrow> db \<Rightarrow> db" where
  "consume_lot material_id issue_id order_id group_id user_id lot qty_taken d =
     d\<lparr>inventory_histories :=
         map (\<lambda>h. if ih_id h = ih_id lot then h\<lparr>ih_remain := ih_remain h - qty_taken\<rparr> else h)
           (inventory_histories d)
         @ [\<lparr>ih_id = lastrowid (map ih_id (inventory_histories d)),
             ih_type = ''stockOutProduction'',
             ih_product_id = material_id,
             ih_warehouse_id = ih_warehouse_id lot,
             ih_quantity = qty_taken,
             ih_remain = 0,
             ih_batch_no = ih_batch_no lot,
             ih_expired_date = ih_expired_date lot,
             ih_action_detail_id = ih_id lot,
             ih_group_id = group_id,
             ih_created_by = user_id,
             ih_delete_flag = 0\<rparr>],
       material_issue_details :=
         material_issue_details d
         @ [\<lparr>mid_material_issue_id = issue_id,
             mid_manufacturing_order_id = order_id,
             mid_material_id = material_id,
             mid_inventory_history_id = ih_id lot,
             mid_batch_no = ih_batch_no lot,
             mid_quantity = qty_taken\<rparr>]\<rparr>"

fun fefo_walk ::
  "nat \<Rightarrow> nat \<Rightarrow> nat \<Rightarrow> string \<Rightarrow> nat \<Rightarrow> rat \<Rightarrow> inventory_history list \<Rightarrow> db \<Rightarrow> db \<times> rat" where
  "fefo_walk material_id issue_id order_id group_id user_id remaining_needed [] d =
     (d, remaining_needed)"
| "fefo_walk material_id issue_id order_id group_id user_id remaining_needed (lot # lots) d =
     (if remaining_needed = 0 then (d, remaining_needed)
      else
        let qty_taken = min remaining_needed (ih_remain lot)
        in fefo_walk material_id issue_id order_id group_id user_id
             (remaining_needed - qty_taken) lots
             (consume_lot material_id issue_id order_id group_id user_id lot qty_taken d))"

definition sp_issue_material_fefo ::
  "nat \<Rightarrow> rat \<Rightarrow> nat \<Rightarrow> nat \<Rightarrow> nat \<Rightarrow> string \<Rightarrow> nat \<Rightarrow> db \<Rightarrow> error + db" where
  "sp_issue_material_fefo material_id quantity warehouse_id issue_id order_id group_id user_id d =
     (case fefo_walk material_id issue_id order_id group_id user_id quantity
             (fefo_lots d material_id warehouse_id) d of
        (d', remaining_needed) \<Rightarrow>
          if 0 < remaining_needed then Inl InsufficientStockError else Inr d')"

subsection \<open>Issuing materials\<close>

text \<open>
  \<^verbatim>\<open>issue_materials\<close> opens a transaction, runs its body inside \<^verbatim>\<open>try\<close>, commits at the end
  of the body, and on any exception rolls back and raises again. The body is
  \<open>issue_materials_body\<close>: its result is the database to commit, or the exception. The
  method itself returns the database after the call together with the result or the
  exception. The two reads of the body (\<^verbatim>\<open>get_order_details\<close>, \<^verbatim>\<open>get_order_materials\<close>) go
  through the engine, not the transaction's connection: they see the committed database.
  The uuid is a parameter, as the clock is.
\<close>

record issue_detail =
  isd_material_name :: string
  isd_quantity :: rat
  isd_uom :: string

record issue_result =
  ir_issue_no :: string
  ir_details :: "issue_detail list"

fun issue_materials_loop ::
  "nat \<Rightarrow> nat \<Rightarrow> nat \<Rightarrow> string \<Rightarrow> nat \<Rightarrow> (order_material \<times> product) list \<Rightarrow> db
     \<Rightarrow> issue_detail list \<Rightarrow> error + (db \<times> issue_detail list)" where
  "issue_materials_loop warehouse_id issue_id order_id group_id user_id [] d issue_details =
     Inr (d, issue_details)"
| "issue_materials_loop warehouse_id issue_id order_id group_id user_id (mat # materials) d issue_details =
     (let remaining = m_required_qty (fst mat) - m_issued_qty (fst mat)
      in if 0 < remaining then
           (case sp_issue_material_fefo (m_material_id (fst mat)) remaining warehouse_id
                   issue_id order_id group_id user_id d of
              Inl e \<Rightarrow> Inl e
            | Inr d' \<Rightarrow>
                issue_materials_loop warehouse_id issue_id order_id group_id user_id materials d'
                  (issue_details
                   @ [\<lparr>isd_material_name = p_name (snd mat),
                       isd_quantity = remaining,
                       isd_uom = m_uom (fst mat)\<rparr>]))
         else issue_materials_loop warehouse_id issue_id order_id group_id user_id materials d
                issue_details)"

definition issue_materials_body ::
  "datetime \<Rightarrow> string \<Rightarrow> db \<Rightarrow> nat \<Rightarrow> nat \<Rightarrow> error + (db \<times> issue_result)" where
  "issue_materials_body now uuid4 d order_id user_id =
     (let issue_no = generate_issue_number now;
          group_id = uuid4
      in case get_order_details d order_id of
           None \<Rightarrow> Inl TypeError
         | Some order \<Rightarrow>
             let issue_id = lastrowid (map mi_id (material_issues d));
                 d1 = d\<lparr>material_issues :=
                         material_issues d
                         @ [\<lparr>mi_id = issue_id,
                             mi_issue_no = issue_no,
                             mi_manufacturing_order_id = order_id,
                             mi_warehouse_id = o_warehouse_id (fst order),
                             mi_status = ''CONFIRMED'',
                             mi_issued_by = user_id,
                             mi_group_id = group_id\<rparr>]\<rparr>;
                 materials = get_order_materials d order_id
             in case issue_materials_loop (o_warehouse_id (fst order)) issue_id order_id
                       group_id user_id materials d1 [] of
                  Inl e \<Rightarrow> Inl e
                | Inr (d2, issue_details) \<Rightarrow>
                    Inr (d2\<lparr>manufacturing_order_materials :=
                              map (\<lambda>m. if m_manufacturing_order_id m = order_id
                                        then m\<lparr>m_issued_qty := m_required_qty m, m_status := ''ISSUED''\<rparr>
                                        else m)
                                (manufacturing_order_materials d2)\<rparr>,
                         \<lparr>ir_issue_no = issue_no, ir_details = issue_details\<rparr>))"

definition issue_materials ::
  "datetime \<Rightarrow> string \<Rightarrow> db \<Rightarrow> nat \<Rightarrow> nat \<Rightarrow> db \<times> (error + issue_result)" where
  "issue_materials now uuid4 d order_id user_id =
     (case issue_materials_body now uuid4 d order_id user_id of
        Inl e \<Rightarrow> (d, Inl e)
      | Inr (d', r) \<Rightarrow> (d', Inr r))"

subsection \<open>Completing production\<close>

text \<open>
  \<^verbatim>\<open>SELECT MIN(...)\<close> over the selected rows: one row, NULL when nothing is selected.
  The selected rows are the issue details of the order joined with their inventory row,
  where that row has an expiry date.
\<close>

definition sql_min :: "date list \<Rightarrow> date option" where
  "sql_min xs = (case xs of [] \<Rightarrow> None | x # ys \<Rightarrow> Some (fold min ys x))"

definition consumed_expiries :: "db \<Rightarrow> nat \<Rightarrow> date list" where
  "consumed_expiries d order_id =
     [e. mid \<leftarrow> material_issue_details d, ih \<leftarrow> inventory_histories d,
         e \<leftarrow> (case ih_expired_date ih of None \<Rightarrow> [] | Some x \<Rightarrow> [x]),
         ih_id ih = mid_inventory_history_id mid \<and> mid_manufacturing_order_id mid = order_id]"

record receipt_result =
  rr_receipt_no :: string
  rr_batch_no :: string
  rr_quantity :: rat

definition complete_production_body ::
  "datetime \<Rightarrow> string \<Rightarrow> db \<Rightarrow> nat \<Rightarrow> rat \<Rightarrow> string \<Rightarrow> string \<Rightarrow> string \<Rightarrow> nat
     \<Rightarrow> error + (db \<times> receipt_result)" where
  "complete_production_body now uuid4 d order_id produced_qty batch_no quality_status notes created_by =
     (case get_order_details d order_id of
        None \<Rightarrow> Inl TypeError
      | Some order \<Rightarrow>
          let receipt_no = generate_receipt_number now;
              receipt_id = lastrowid (map pr_id (production_receipts d));
              receipt =
                \<lparr>pr_id = receipt_id,
                 pr_receipt_no = receipt_no,
                 pr_manufacturing_order_id = order_id,
                 pr_product_id = o_product_id (fst order),
                 pr_quantity = produced_qty,
                 pr_uom = o_uom (fst order),
                 pr_batch_no = batch_no,
                 pr_warehouse_id = o_target_warehouse_id (fst order),
                 pr_quality_status = quality_status,
                 pr_notes = notes,
                 pr_created_by = created_by\<rparr>;
              group_id =
                (case filter (\<lambda>i. mi_manufacturing_order_id i = order_id) (material_issues d) of
                   [] \<Rightarrow> uuid4
                 | i # _ \<Rightarrow> mi_group_id i);
              expiry_date =
                (if bh_bom_type (snd order) = ''KITTING''
                 then sql_min (consumed_expiries d order_id)
                 else None);
              lot =
                \<lparr>ih_id = lastrowid (map ih_id (inventory_histories d)),
                 ih_type = ''stockInProduction'',
                 ih_product_id = o_product_id (fst order),
                 ih_warehouse_id = o_target_warehouse_id (fst order),
                 ih_quantity = produced_qty,
                 ih_remain = produced_qty,
                 ih_batch_no = batch_no,
                 ih_expired_date = expiry_date,
                 ih_action_detail_id = receipt_id,
                 ih_group_id = group_id,
                 ih_created_by = created_by,
                 ih_delete_flag = 0\<rparr>
          in Inr (d\<lparr>production_receipts := production_receipts d @ [receipt],
                    inventory_histories := inventory_histories d @ [lot],
                    manufacturing_orders :=
                      map (\<lambda>mo. if o_id mo = order_id
                                 then mo\<lparr>o_produced_qty := Some produced_qty, o_status := ''COMPLETED''\<rparr>
                                 else mo)
                        (manufacturing_orders d)\<rparr>,
                  \<lparr>rr_receipt_no = receipt_no, rr_batch_no = batch_no, rr_quantity = produced_qty\<rparr>))"

definition complete_production ::
  "datetime \<Rightarrow> string \<Rightarrow> db \<Rightarrow> nat \<Rightarrow> rat \<Rightarrow> string \<Rightarrow> string \<Rightarrow> string \<Rightarrow> nat
     \<Rightarrow> db \<times> (error + receipt_result)" where
  "complete_production now uuid4 d order_id produced_qty batch_no quality_status notes created_by =
     (case complete_production_body now uuid4 d order_id produced_qty batch_no quality_status
             notes created_by of
        Inl e \<Rightarrow> (d, Inl e)
      | Inr (d', r) \<Rightarrow> (d', Inr r))"

subsection \<open>Setting the status of an order\<close>



subsection \<open>Sequences of manager calls\<close>




section \<open>The production page\<close>













section \<open>Example data\<close>

text \<open>
  A small database: product 1 is a kit made from product 2 by BOM 1 (1.6 units per kit,
  25 percent scrap); order 1 plans 4 kits from warehouse 1 into warehouse 2, so it
  requires 8 units; warehouse 1 holds two lots of product 2, batch A (5 units, expiring
  on day 20098, which is 2025-01-10) and batch B (10 units, expiring on day 20120,
  2025-02-01). The variants below change the order, its requirement or the lots.
\<close>

definition ex_now :: datetime where
  "ex_now = \<lparr>dt_year = 2025, dt_month = 1, dt_day = 10, dt_hour = 12, dt_minute = 0,
             dt_second = 0, dt_microsecond = 1\<rparr>"

definition ex_order :: "string \<Rightarrow> manufacturing_order" where
  "ex_order st =
     \<lparr>o_id = 1, o_entity_id = Some 1, o_order_no = ''MO-20250109080000'', o_bom_header_id = 1,
      o_product_id = 1, o_planned_qty = 4, o_produced_qty = None, o_uom = ''PCS'',
      o_warehouse_id = 1, o_target_warehouse_id = 2, o_scheduled_date = 20098, o_status = st,
      o_priority = ''NORMAL'', o_notes = [], o_created_by = 7, o_delete_flag = 0\<rparr>"

definition ex_requirement :: "rat \<Rightarrow> rat \<Rightarrow> string \<Rightarrow> order_material" where
  "ex_requirement required issued st =
     \<lparr>m_manufacturing_order_id = 1, m_material_id = 2, m_required_qty = required,
      m_issued_qty = issued, m_uom = ''PCS'', m_status = st, m_warehouse_id = 1\<rparr>"

definition ex_lot :: "nat \<Rightarrow> string \<Rightarrow> rat \<Rightarrow> date option \<Rightarrow> inventory_history" where
  "ex_lot i batch qty expiry =
     \<lparr>ih_id = i, ih_type = ''stockIn'', ih_product_id = 2, ih_warehouse_id = 1, ih_quantity = qty,
      ih_remain = qty, ih_batch_no = batch, ih_expired_date = expiry, ih_action_detail_id = 0,
      ih_group_id = [], ih_created_by = 7, ih_delete_flag = 0\<rparr>"

definition ex_db :: db where
  "ex_db =
     \<lparr>products = [\<lparr>p_id = 1, p_name = ''Kit''\<rparr>, \<lparr>p_id = 2, p_name = ''Bolt''\<rparr>],
      warehouses = [\<lparr>w_id = 1, w_company_id = Some 1, w_delete_flag = 0\<rparr>,
                    \<lparr>w_id = 2, w_company_id = Some 1, w_delete_flag = 0\<rparr>],
      bom_headers = [\<lparr>bh_id = 1, bh_bom_type = ''KITTING'', bh_product_id = 1, bh_uom = ''PCS'',
                      bh_status = ''ACTIVE'', bh_delete_flag = 0\<rparr>],
      bom_details = [\<lparr>bd_bom_header_id = 1, bd_material_id = 2, bd_material_type = ''RAW_MATERIAL'',
                      bd_quantity = 8 / 5, bd_uom = ''PCS'', bd_scrap_rate = 25\<rparr>],
      manufacturing_orders = [ex_order ''CONFIRMED''],
      manufacturing_order_materials = [ex_requirement 8 0 ''PENDING''],
      inventory_histories = [ex_lot 1 ''A'' 5 (Some 20098), ex_lot 2 ''B'' 10 (Some 20120)],
      material_issues = [],
      material_issue_details = [],
      production_receipts = []\<rparr>"

text \<open>Batch B without an expiry date.\<close>

definition null_expiry_db :: db where
  "null_expiry_db =
     ex_db\<lparr>inventory_histories := [ex_lot 1 ''A'' 5 (Some 20098), ex_lot 2 ''B'' 10 None]\<rparr>"

text \<open>The order requires 20 units; the warehouse holds 15.\<close>

definition short_db :: db where
  "short_db = ex_db\<lparr>manufacturing_order_materials := [ex_requirement 20 0 ''PENDING'']\<rparr>"

text \<open>The order is completed and its requirement issued in full.\<close>

definition done_db :: db where
  "done_db =
     ex_db\<lparr>manufacturing_orders := [ex_order ''COMPLETED''],
           manufacturing_order_materials := [ex_requirement 8 8 ''ISSUED'']\<rparr>"

text \<open>
  The order is in progress; it has consumed three lots, which expire on day 20148
  (2025-03-01), never, and on day 20134 (2025-02-15).
\<close>

definition kit_db :: db where
  "kit_db =
     ex_db\<lparr>manufacturing_orders := [ex_order ''IN_PROGRESS''],
           manufacturing_order_materials := [ex_requirement 8 8 ''ISSUED''],
           inventory_histories :=
             [ex_lot 1 ''A'' 0 (Some 20148), ex_lot 2 ''B'' 0 None, ex_lot 3 ''C'' 0 (Some 20134)],
           material_issues :=
             [\<lparr>mi_id = 1, mi_issue_no = ''MI-20250109090000'', mi_manufacturing_order_id = 1,
               mi_warehouse_id = 1, mi_status = ''CONFIRMED'', mi_issued_by = 7, mi_group_id = ''g1''\<rparr>],
           material_issue_details :=
             [\<lparr>mid_material_issue_id = 1, mid_manufacturing_order_id = 1, mid_material_id = 2,
               mid_inventory_history_id = 1, mid_batch_no = ''A'', mid_quantity = 3\<rparr>,
              \<lparr>mid_material_issue_id = 1, mid_manufacturing_order_id = 1, mid_material_id = 2,
               mid_inventory_history_id = 2, mid_batch_no = ''B'', mid_quantity = 3\<rparr>,
              \<lparr>mid_material_issue_id = 1, mid_manufacturing_order_id = 1, mid_material_id = 2,
               mid_inventory_history_id = 3, mid_batch_no = ''C'', mid_quantity = 2\<rparr>]\<rparr>"

text \<open>The dictionary the page passes to \<^verbatim>\<open>create_order\<close> for 4 kits of BOM 1.\<close>

definition ex_order_data :: order_data where
  "ex_order_data =
     \<lparr>od_entity_id = None, od_bom_header_id = 1, od_product_id = 1, od_planned_qty = 4,
      od_uom = ''PCS'', od_warehouse_id = 1, od_target_warehouse_id = 2, od_scheduled_date = 20100,
      od_priority = None, od_notes = None, od_created_by = 7\<rparr>"

section \<open>Auxiliary notions for the proofs\<close>

text \<open>What one ledger row adds to the available stock of a product in a warehouse.\<close>

definition stock_of :: "nat \<Rightarrow> nat \<Rightarrow> inventory_history \<Rightarrow> rat" where
  "stock_of p w h =
     (if ih_product_id h = p \<and> ih_warehouse_id h = w \<and> 0 < ih_remain h \<and> ih_delete_flag h = 0
      then ih_remain h else 0)"





text \<open>
  The example database after the issue view has issued the 8 units of order 1: lot A is
  exhausted, lot B keeps 7, two outgoing ledger entries and two issue details are written,
  the requirement is issued and the order in progress.
\<close>

definition issued_db :: db where
  "issued_db =
     ex_db\<lparr>manufacturing_orders := [ex_order ''IN_PROGRESS''],
           manufacturing_order_materials := [ex_requirement 8 8 ''ISSUED''],
           inventory_histories :=
             [(ex_lot 1 ''A'' 5 (Some 20098))\<lparr>ih_remain := 0\<rparr>,
              (ex_lot 2 ''B'' 10 (Some 20120))\<lparr>ih_remain := 7\<rparr>,
              \<lparr>ih_id = 3, ih_type = ''stockOutProduction'', ih_product_id = 2, ih_warehouse_id = 1,
               ih_quantity = 5, ih_remain = 0, ih_batch_no = ''A'', ih_expired_date = Some 20098,
               ih_action_detail_id = 1, ih_group_id = ''g'', ih_created_by = 7, ih_delete_flag = 0\<rparr>,
              \<lparr>ih_id = 4, ih_type = ''stockOutProduction'', ih_product_id = 2, ih_warehouse_id = 1,
               ih_quantity = 3, ih_remain = 0, ih_batch_no = ''B'', ih_expired_date = Some 20120,
               ih_action_detail_id = 2, ih_group_id = ''g'', ih_created_by = 7, ih_delete_flag = 0\<rparr>],
           material_issues :=
             [\<lparr>mi_id = 1, mi_issue_no = ''MI-20250110120000'', mi_manufacturing_order_id = 1,
               mi_warehouse_id = 1, mi_status = ''CONFIRMED'', mi_issued_by = 7, mi_group_id = ''g''\<rparr>],
           material_issue_details :=
             [\<lparr>mid_material_issue_id = 1, mid_manufacturing_order_id = 1, mid_material_id = 2,
               mid_inventory_history_id = 1, mid_batch_no = ''A'', mid_quantity = 5\<rparr>,
              \<lparr>mid_material_issue_id = 1, mid_manufacturing_order_id = 1, mid_material_id = 2,
               mid_inventory_history_id = 2, mid_batch_no = ''B'', mid_quantity = 3\<rparr>]\<rparr>"




lemmas ex_defs =
  ex_db_def ex_order_def ex_requirement_def ex_lot_def ex_now_def
  null_expiry_db_def short_db_def done_db_def kit_db_def issued_db_def ex_order_data_def

section \<open>Sums over lists of quantities\<close>

lemma sum_list_map_nonneg:
  "\<forall>x\<in>set xs. 0 \<le> f x \<Longrightarrow> 0 \<le> (sum_list (map f xs) :: rat)"
  by (induction xs) auto

section \<open>The FEFO preview\<close>

text \<open>
  The example of the spec on the preview: lots A (expiry 2025-01-10, 5 units) and B (expiry
  2025-02-01, 10 units), request 8: A gives 5, then B gives 3. The numbers 0, 3, 5 and 10
  are float64 numbers, which the conversion leaves as they are.
\<close>

lemma preview_fefo_issue_example:
  assumes "float64 0 = 0" and "float64 3 = 3" and "float64 5 = 5" and "float64 10 = 10"
  shows "preview_fefo_issue float64 20090 ex_db 2 8 1 =
     [\<lparr>sb_batch_no = ''A'', sb_quantity = 5, sb_expired_date = Some 20098, sb_expiry_status = ''WARNING''\<rparr>,
      \<lparr>sb_batch_no = ''B'', sb_quantity = 3, sb_expired_date = Some 20120, sb_expiry_status = ''WARNING''\<rparr>]"
  by (simp add: preview_fefo_issue_def get_stock_by_batch_def stock_rows_def batch_key_def
        batch_group_def expiry_status_def ex_defs Let_def assms)

text \<open>
  Claim C4. FEFO selection is to take lots in ascending order of expiry date and batch
  number with a null expiry last. The query of \<^verbatim>\<open>get_stock_by_batch\<close> orders by
  \<^verbatim>\<open>expired_date ASC\<close> with no treatment of NULL, and MySQL puts NULL first: with lot A
  (expiry 2025-01-10, 5 units) and lot B (no expiry, 10 units), a request of 8 is taken
  from B alone, the lot that never expires, and A is left untouched. The quantities that
  the loop meets are 10 and 0, float64 numbers both, which the conversion leaves as they
  are.
\<close>

theorem preview_fefo_issue_null_expiry_first:
  assumes "float64 0 = 0" and "float64 10 = 10"
  shows "preview_fefo_issue float64 20090 null_expiry_db 2 8 1 =
     [\<lparr>sb_batch_no = ''B'', sb_quantity = 8, sb_expired_date = None, sb_expiry_status = ''OK''\<rparr>]"
  by (simp add: preview_fefo_issue_def get_stock_by_batch_def stock_rows_def batch_key_def
        batch_group_def expiry_status_def ex_defs Let_def assms)

text \<open>The same with exact arithmetic, where the conversion changes nothing.\<close>

theorem preview_fefo_issue_null_expiry_first_witness:
  "preview_fefo_issue id 20090 null_expiry_db 2 8 1 =
     [\<lparr>sb_batch_no = ''B'', sb_quantity = 8, sb_expired_date = None, sb_expiry_status = ''OK''\<rparr>]"
  using preview_fefo_issue_null_expiry_first[of id] by simp

section \<open>Generated numbers\<close>

lemma zero_padded_2: "zero_padded 2 n = [digit (n div 10), digit n]"
  by (simp add: numeral_2_eq_2)

lemma zero_padded_4:
  "zero_padded 4 n = [digit (n div 1000), digit (n div 100), digit (n div 10), digit n]"
proof -
  have "zero_padded (Suc (Suc (Suc (Suc 0)))) n
        = [digit (n div 1000), digit (n div 100), digit (n div 10), digit n]"
    by (simp add: div_mult2_eq[symmetric])
  moreover have "(4::nat) = Suc (Suc (Suc (Suc 0)))" by simp
  ultimately show ?thesis by metis
qed

text \<open>
  Claim C9. Two distinct generation calls are to return different numbers. The three
  generators format the clock to the second and nothing else: two calls within the same
  second (here at microseconds 1 and 2 of 2025-01-10 12:00:00) return the same order
  number, the same issue number and the same receipt number. There is no retry.
\<close>

theorem generated_numbers_collide_within_a_second:
  "ex_now \<noteq> ex_now\<lparr>dt_microsecond := 2\<rparr>
   \<and> generate_order_number ex_now = ''MO-20250110120000''
   \<and> generate_order_number (ex_now\<lparr>dt_microsecond := 2\<rparr>) = ''MO-20250110120000''
   \<and> generate_issue_number ex_now = generate_issue_number (ex_now\<lparr>dt_microsecond := 2\<rparr>)
   \<and> generate_receipt_number ex_now = generate_receipt_number (ex_now\<lparr>dt_microsecond := 2\<rparr>)"
  by (simp add: generate_order_number_def generate_issue_number_def generate_receipt_number_def
        strftime_def zero_padded_2 zero_padded_4 digit_def ex_now_def)

section \<open>Expiry of the produced lot\<close>

lemma sql_min_Min: "sql_min xs = (if xs = [] then None else Some (Min (set xs)))"
proof (cases xs)
  case Nil
  then show ?thesis by (simp add: sql_min_def)
next
  case (Cons a as)
  have "fold min as a = Min (set (a # as))"
    by (rule Min.set_eq_fold[symmetric])
  then show ?thesis using Cons by (simp add: sql_min_def)
qed

text \<open>
  The dates the MIN of \<^verbatim>\<open>complete_production\<close> ranges over: the expiry dates, where there
  is one, of the inventory rows that the issue details of the order refer to.
\<close>

lemma set_consumed_expiries:
  "set (consumed_expiries d order_id) =
     {e. \<exists>mid\<in>set (material_issue_details d). \<exists>ih\<in>set (inventory_histories d).
           mid_manufacturing_order_id mid = order_id
           \<and> ih_id ih = mid_inventory_history_id mid \<and> ih_expired_date ih = Some e}"
proof (intro set_eqI iffI)
  fix e assume "e \<in> set (consumed_expiries d order_id)"
  then obtain mid ih where "mid \<in> set (material_issue_details d)" "ih \<in> set (inventory_histories d)"
    "mid_manufacturing_order_id mid = order_id" "ih_id ih = mid_inventory_history_id mid"
    "ih_expired_date ih = Some e"
    by (auto simp: consumed_expiries_def split: option.splits if_splits)
  then show "e \<in> {e. \<exists>mid\<in>set (material_issue_details d). \<exists>ih\<in>set (inventory_histories d).
           mid_manufacturing_order_id mid = order_id
           \<and> ih_id ih = mid_inventory_history_id mid \<and> ih_expired_date ih = Some e}"
    by blast
next
  fix e assume "e \<in> {e. \<exists>mid\<in>set (material_issue_details d). \<exists>ih\<in>set (inventory_histories d).
           mid_manufacturing_order_id mid = order_id
           \<and> ih_id ih = mid_inventory_history_id mid \<and> ih_expired_date ih = Some e}"
  then obtain mid ih where "mid \<in> set (material_issue_details d)" "ih \<in> set (inventory_histories d)"
    "mid_manufacturing_order_id mid = order_id" "ih_id ih = mid_inventory_history_id mid"
    "ih_expired_date ih = Some e"
    by blast
  then show "e \<in> set (consumed_expiries d order_id)"
    by (force simp: consumed_expiries_def)
qed

text \<open>
  Claim C5. Completing an existing order appends one lot to the ledger. For a KITTING
  order its expiry is the least expiry date among the consumed lots of the order that have
  one (the inventory rows its issue details refer to), and null when none has one; for
  any other BOM type (CUTTING, REPACKING) it is null: nothing is inherited.
\<close>

theorem complete_production_expiry:
  assumes "get_order_details d order_id = Some order"
  shows "\<exists>lot. inventory_histories
                 (fst (complete_production now uuid4 d order_id produced_qty batch_no quality_status
                         notes created_by))
               = inventory_histories d @ [lot]
             \<and> ih_batch_no lot = batch_no
             \<and> ih_expired_date lot =
                 (let E = {e. \<exists>mid\<in>set (material_issue_details d). \<exists>ih\<in>set (inventory_histories d).
                                mid_manufacturing_order_id mid = order_id
                                \<and> ih_id ih = mid_inventory_history_id mid
                                \<and> ih_expired_date ih = Some e}
                  in if bh_bom_type (snd order) = ''KITTING'' \<and> E \<noteq> {} then Some (Min E) else None)"
proof -
  have "consumed_expiries d order_id = [] \<longleftrightarrow> set (consumed_expiries d order_id) = {}"
    by simp
  then show ?thesis
    using assms unfolding set_consumed_expiries [symmetric] Let_def
    by (simp add: complete_production_def complete_production_body_def Let_def sql_min_Min
          del: set_empty)
qed

theorem complete_production_expiry_witness:
  "\<exists>lot. inventory_histories (fst (complete_production ex_now ''g'' kit_db 1 4 ''K1'' ''PASSED'' [] 7))
            = inventory_histories kit_db @ [lot]
         \<and> ih_batch_no lot = ''K1'' \<and> ih_expired_date lot = Some 20134"
proof -
  have o: "get_order_details kit_db 1 =
             Some (ex_order ''IN_PROGRESS'',
                   \<lparr>bh_id = 1, bh_bom_type = ''KITTING'', bh_product_id = 1, bh_uom = ''PCS'',
                    bh_status = ''ACTIVE'', bh_delete_flag = 0\<rparr>)"
    by (simp add: get_order_details_def order_join_def ex_defs)
  have e: "consumed_expiries kit_db 1 = [20148, 20134]"
    by (simp add: consumed_expiries_def ex_defs)
  have E: "{e. \<exists>mid\<in>set (material_issue_details kit_db). \<exists>ih\<in>set (inventory_histories kit_db).
                mid_manufacturing_order_id mid = 1
                \<and> ih_id ih = mid_inventory_history_id mid
                \<and> ih_expired_date ih = Some e} = {20148, 20134}"
    unfolding set_consumed_expiries [symmetric] e by simp
  show ?thesis
    using complete_production_expiry [OF o, of ex_now "''g''" 4 "''K1''" "''PASSED''" "[]" 7]
    unfolding E by simp
qed

section \<open>Requirement quantities\<close>

lemma concat_map_single:
  assumes "length (filter P ps) = 1"
  shows "concat (map (\<lambda>p. if P p then [f p] else []) ps) = [f (hd (filter P ps))]"
  using assms
proof (induction ps)
  case Nil
  then show ?case by simp
next
  case (Cons p ps)
  show ?case
  proof (cases "P p")
    case True
    with Cons.prems have "filter P ps = []" by simp
    then have "concat (map (\<lambda>p. if P p then [f p] else []) ps) = []"
      by (induction ps) (auto split: if_splits)
    with True show ?thesis by simp
  next
    case False
    with Cons show ?thesis by simp
  qed
qed

lemma requirements_match_rows:
  assumes "\<forall>dd\<in>set ds. bd_bom_header_id dd = bom_id \<longrightarrow>
             length (filter (\<lambda>p. p_id p = bd_material_id dd) ps) = 1"
  shows "map (\<lambda>r. (rq_material_id r, rq_required_qty r, rq_uom r))
           [\<lparr>rq_material_id = bd_material_id dd,
             rq_material_name = p_name p,
             rq_required_qty = bd_quantity dd * quantity * (1 + bd_scrap_rate dd / 100),
             rq_uom = bd_uom dd,
             rq_material_type = bd_material_type dd\<rparr>.
            dd \<leftarrow> ds, p \<leftarrow> ps, bd_material_id dd = p_id p \<and> bd_bom_header_id dd = bom_id]
       = map (\<lambda>dd. (bd_material_id dd, bd_quantity dd * quantity * (1 + bd_scrap_rate dd / 100), bd_uom dd))
           (filter (\<lambda>dd. bd_bom_header_id dd = bom_id) ds)"
  using assms
proof (induction ds)
  case Nil
  then show ?case by simp
next
  case (Cons dd ds)
  let ?row = "\<lambda>p. \<lparr>rq_material_id = bd_material_id dd,
             rq_material_name = p_name p,
             rq_required_qty = bd_quantity dd * quantity * (1 + bd_scrap_rate dd / 100),
             rq_uom = bd_uom dd,
             rq_material_type = bd_material_type dd\<rparr>"
  show ?case
  proof (cases "bd_bom_header_id dd = bom_id")
    case True
    with Cons.prems have one: "length (filter (\<lambda>p. p_id p = bd_material_id dd) ps) = 1" by simp
    have "concat (map (\<lambda>p. if bd_material_id dd = p_id p \<and> bd_bom_header_id dd = bom_id
                            then [?row p] else []) ps)
        = concat (map (\<lambda>p. if p_id p = bd_material_id dd then [?row p] else []) ps)"
      using True by (intro arg_cong[where f=concat] map_cong) auto
    also have "\<dots> = [?row (hd (filter (\<lambda>p. p_id p = bd_material_id dd) ps))]"
      by (rule concat_map_single[OF one])
    finally show ?thesis using Cons True by simp
  next
    case False
    then have "concat (map (\<lambda>p. if bd_material_id dd = p_id p \<and> bd_bom_header_id dd = bom_id
                            then [?row p] else []) ps) = []"
      by (induction ps) auto
    with Cons False show ?thesis by simp
  qed
qed

lemma materials_insert_rows_aux:
  "map (\<lambda>m. (m_material_id m, m_required_qty m, m_uom m))
     [\<lparr>m_manufacturing_order_id = order_id,
       m_material_id = bd_material_id dd,
       m_required_qty = bd_quantity dd * planned_qty * (1 + bd_scrap_rate dd / 100),
       m_issued_qty = default_issued_qty,
       m_uom = bd_uom dd,
       m_status = default_material_status,
       m_warehouse_id = warehouse_id\<rparr>.
      dd \<leftarrow> ds, bd_bom_header_id dd = bom_id]
   = map (\<lambda>dd. (bd_material_id dd, bd_quantity dd * planned_qty * (1 + bd_scrap_rate dd / 100), bd_uom dd))
       (filter (\<lambda>dd. bd_bom_header_id dd = bom_id) ds)"
  by (induction ds) simp_all

lemma materials_insert_rows:
  "map (\<lambda>m. (m_material_id m, m_required_qty m, m_uom m))
     (materials_insert d order_id planned_qty warehouse_id bom_id)
   = map (\<lambda>dd. (bd_material_id dd, bd_quantity dd * planned_qty * (1 + bd_scrap_rate dd / 100), bd_uom dd))
       (filter (\<lambda>dd. bd_bom_header_id dd = bom_id) (bom_details d))"
  unfolding materials_insert_def by (rule materials_insert_rows_aux)

lemma calculate_material_requirements_rows:
  assumes "\<forall>dd\<in>set (bom_details d). bd_bom_header_id dd = bom_id \<longrightarrow>
             length (filter (\<lambda>p. p_id p = bd_material_id dd) (products d)) = 1"
  shows "map (\<lambda>r. (rq_material_id r, rq_required_qty r, rq_uom r))
           (calculate_material_requirements d bom_id quantity)
       = map (\<lambda>dd. (bd_material_id dd, bd_quantity dd * quantity * (1 + bd_scrap_rate dd / 100), bd_uom dd))
           (filter (\<lambda>dd. bd_bom_header_id dd = bom_id) (bom_details d))"
  unfolding calculate_material_requirements_def using assms by (rule requirements_match_rows)

text \<open>
  Claim C6. For every line of the BOM and every target quantity the requirement is
  \<open>quantity * target * (1 + scrap_rate / 100)\<close>: the rows that \<^verbatim>\<open>create_order\<close> persists
  are, line by line, the BOM lines with that quantity, and the rows that
  \<^verbatim>\<open>calculate_material_requirements\<close> returns for the availability preview carry the same
  materials, quantities and units. The preview joins each line with its product, so the
  two agree when every material of the BOM is one row of the products table (the foreign
  key of \<^verbatim>\<open>bom_details.material_id\<close>).
\<close>

theorem requirements_preview_equals_persisted:
  assumes "\<forall>dd\<in>set (bom_details d). bd_bom_header_id dd = od_bom_header_id order_data \<longrightarrow>
             length (filter (\<lambda>p. p_id p = bd_material_id dd) (products d)) = 1"
  shows "\<exists>rows. manufacturing_order_materials (fst (create_order now d order_data))
                  = manufacturing_order_materials d @ rows
           \<and> map (\<lambda>m. (m_material_id m, m_required_qty m, m_uom m)) rows
               = map (\<lambda>dd. (bd_material_id dd,
                               bd_quantity dd * od_planned_qty order_data * (1 + bd_scrap_rate dd / 100),
                               bd_uom dd))
                   (filter (\<lambda>dd. bd_bom_header_id dd = od_bom_header_id order_data) (bom_details d))
           \<and> map (\<lambda>r. (rq_material_id r, rq_required_qty r, rq_uom r))
                 (calculate_material_requirements d (od_bom_header_id order_data) (od_planned_qty order_data))
               = map (\<lambda>m. (m_material_id m, m_required_qty m, m_uom m)) rows"
proof -
  let ?rows = "materials_insert d (lastrowid (map o_id (manufacturing_orders d)))
                 (od_planned_qty order_data) (od_warehouse_id order_data) (od_bom_header_id order_data)"
  have "manufacturing_order_materials (fst (create_order now d order_data))
          = manufacturing_order_materials d @ ?rows"
    by (simp add: create_order_def Let_def)
  moreover note materials_insert_rows [of d _ "od_planned_qty order_data" _ "od_bom_header_id order_data"]
  moreover note calculate_material_requirements_rows [OF assms, of "od_planned_qty order_data"]
  ultimately show ?thesis by (intro exI[of _ ?rows]) simp
qed

theorem requirements_preview_equals_persisted_witness:
  "\<exists>rows. manufacturing_order_materials (fst (create_order ex_now ex_db ex_order_data))
                  = manufacturing_order_materials ex_db @ rows
           \<and> map (\<lambda>m. (m_material_id m, m_required_qty m, m_uom m)) rows = [(2, 8, ''PCS'')]
           \<and> map (\<lambda>r. (rq_material_id r, rq_required_qty r, rq_uom r))
                 (calculate_material_requirements ex_db 1 4) = [(2, 8, ''PCS'')]"
proof -
  have h: "\<forall>dd\<in>set (bom_details ex_db). bd_bom_header_id dd = od_bom_header_id ex_order_data \<longrightarrow>
             length (filter (\<lambda>p. p_id p = bd_material_id dd) (products ex_db)) = 1"
    by (simp add: ex_db_def ex_order_data_def)
  have b: "bom_details ex_db =
             [\<lparr>bd_bom_header_id = 1, bd_material_id = 2, bd_material_type = ''RAW_MATERIAL'',
               bd_quantity = 8 / 5, bd_uom = ''PCS'', bd_scrap_rate = 25\<rparr>]"
    by (simp add: ex_db_def)
  have o: "od_bom_header_id ex_order_data = 1" "od_planned_qty ex_order_data = 4"
    by (simp_all add: ex_order_data_def)
  show ?thesis
    using requirements_preview_equals_persisted [OF h, of ex_now] unfolding b o by auto
qed

section \<open>Allocation and the atomicity of issuing\<close>

lemma sum_list_insort_key:
  "sum_list (map f (insort_key k x xs)) = (f x :: rat) + sum_list (map f xs)"
  by (induction xs) auto

lemma sum_list_sort_key:
  "sum_list (map f (sort_key k xs)) = (sum_list (map f xs) :: rat)"
  by (induction xs) (simp_all add: sum_list_insort_key)

lemma fefo_lots_sum:
  "sum_list (map ih_remain (fefo_lots d material_id warehouse_id)) = total_available d material_id warehouse_id"
  by (simp add: fefo_lots_def total_available_def sum_list_sort_key)

lemma fefo_lots_pos: "l \<in> set (fefo_lots d m w) \<Longrightarrow> 0 < ih_remain l"
  by (simp add: fefo_lots_def stock_rows_def)

lemma fefo_walk_remaining:
  "0 \<le> need \<Longrightarrow> \<forall>l\<in>set lots. 0 \<le> ih_remain l \<Longrightarrow>
   snd (fefo_walk m i oid g u need lots d) = max 0 (need - sum_list (map ih_remain lots))"
proof (induction lots arbitrary: need d)
  case Nil
  then show ?case by simp
next
  case (Cons l lots)
  have S: "0 \<le> sum_list (map ih_remain lots)"
    using Cons.prems by (intro sum_list_map_nonneg) auto
  have l: "0 \<le> ih_remain l" using Cons.prems by simp
  show ?case
  proof (cases "need = 0")
    case True
    with S l show ?thesis by simp
  next
    case False
    have "0 \<le> need - min need (ih_remain l)" by simp
    from Cons.IH[OF this] Cons.prems(2)
    have "snd (fefo_walk m i oid g u (need - min need (ih_remain l)) lots
                 (consume_lot m i oid g u l (min need (ih_remain l)) d))
          = max 0 (need - min need (ih_remain l) - sum_list (map ih_remain lots))"
      by simp
    with False S l show ?thesis by (simp add: Let_def min_def max_def)
  qed
qed

lemma sp_issue_material_fefo_insufficient:
  assumes "total_available d m w < q"
  shows "sp_issue_material_fefo m q w i oid g u d = Inl InsufficientStockError"
proof -
  have t: "0 \<le> total_available d m w"
    unfolding total_available_def by (intro sum_list_map_nonneg) (auto simp: stock_rows_def)
  with assms have q: "0 \<le> q" by simp
  have "snd (fefo_walk m i oid g u q (fefo_lots d m w) d) = max 0 (q - total_available d m w)"
    using fefo_walk_remaining[OF q, of "fefo_lots d m w"] fefo_lots_pos[of _ d m w]
    by (auto simp: fefo_lots_sum less_imp_le)
  with assms show ?thesis
    by (cases "fefo_walk m i oid g u q (fefo_lots d m w) d")
       (simp add: sp_issue_material_fefo_def)
qed

lemma sp_issue_material_fefo_error:
  "sp_issue_material_fefo m q w i oid g u d = Inl e \<Longrightarrow> e = InsufficientStockError"
  by (auto simp: sp_issue_material_fefo_def split: prod.splits if_splits)

lemma total_available_stock_of:
  "total_available d p w = sum_list (map (stock_of p w) (inventory_histories d))"
  unfolding total_available_def stock_rows_def stock_of_def
  by (simp add: sum_list_map_filter' cong: map_cong)

lemma stock_of_decrement:
  "0 \<le> t \<Longrightarrow> stock_of p w (h\<lparr>ih_remain := ih_remain h - t\<rparr>) \<le> stock_of p w h"
  by (simp add: stock_of_def)

lemma stock_of_nonneg: "0 \<le> stock_of p w h"
  by (simp add: stock_of_def)

lemma consume_lot_available:
  assumes "0 \<le> t"
  shows "total_available (consume_lot m i oid g u lot t d) p w \<le> total_available d p w"
proof -
  have "sum_list (map (stock_of p w)
          (map (\<lambda>h. if ih_id h = ih_id lot then h\<lparr>ih_remain := ih_remain h - t\<rparr> else h)
             (inventory_histories d)))
        \<le> sum_list (map (stock_of p w) (inventory_histories d))"
    unfolding map_map
    by (rule sum_list_mono) (auto simp: stock_of_decrement[OF assms])
  then show ?thesis
    by (simp add: total_available_stock_of consume_lot_def stock_of_def)
qed

lemma fefo_walk_available:
  "0 \<le> need \<Longrightarrow> \<forall>l\<in>set lots. 0 \<le> ih_remain l \<Longrightarrow>
   total_available (fst (fefo_walk m i oid g u need lots d)) p w \<le> total_available d p w"
proof (induction lots arbitrary: need d)
  case Nil
  then show ?case by simp
next
  case (Cons l lots)
  show ?case
  proof (cases "need = 0")
    case True
    then show ?thesis by simp
  next
    case False
    let ?t = "min need (ih_remain l)"
    have t: "0 \<le> ?t" using Cons.prems by simp
    have "0 \<le> need - ?t" by simp
    from Cons.IH[OF this] Cons.prems(2)
    have "total_available (fst (fefo_walk m i oid g u (need - ?t) lots (consume_lot m i oid g u l ?t d))) p w
          \<le> total_available (consume_lot m i oid g u l ?t d) p w"
      by simp
    also have "\<dots> \<le> total_available d p w"
      by (rule consume_lot_available[OF t])
    finally show ?thesis using False by (simp add: Let_def)
  qed
qed

lemma sp_issue_material_fefo_available:
  assumes "sp_issue_material_fefo m q w0 i oid g u d = Inr d'" and "0 \<le> q"
  shows "total_available d' p w \<le> total_available d p w"
proof -
  have "total_available (fst (fefo_walk m i oid g u q (fefo_lots d m w0) d)) p w \<le> total_available d p w"
    using fefo_walk_available[OF assms(2), of "fefo_lots d m w0"] fefo_lots_pos[of _ d m w0]
    by (auto simp: less_imp_le)
  with assms(1) show ?thesis
    by (cases "fefo_walk m i oid g u q (fefo_lots d m w0) d")
       (simp add: sp_issue_material_fefo_def split: if_splits)
qed

lemma issue_materials_loop_insufficient:
  assumes "mat \<in> set materials"
    and "total_available d (m_material_id (fst mat)) w < m_required_qty (fst mat) - m_issued_qty (fst mat)"
  shows "issue_materials_loop w i oid g u materials d acc = Inl InsufficientStockError"
  using assms
proof (induction materials arbitrary: d acc)
  case Nil
  then show ?case by simp
next
  case (Cons m0 materials)
  let ?r0 = "m_required_qty (fst m0) - m_issued_qty (fst m0)"
  show ?case
  proof (cases "0 < ?r0")
    case True
    show ?thesis
    proof (cases "sp_issue_material_fefo (m_material_id (fst m0)) ?r0 w i oid g u d")
      case (Inl e)
      then have "e = InsufficientStockError" by (rule sp_issue_material_fefo_error)
      with Inl True show ?thesis by (simp add: Let_def)
    next
      case (Inr d')
      have "mat \<noteq> m0"
      proof
        assume "mat = m0"
        with Cons.prems(2) have "sp_issue_material_fefo (m_material_id (fst m0)) ?r0 w i oid g u d = Inl InsufficientStockError"
          by (intro sp_issue_material_fefo_insufficient) simp
        with Inr show False by simp
      qed
      with Cons.prems(1) have in_rest: "mat \<in> set materials" by simp
      have "total_available d' (m_material_id (fst mat)) w \<le> total_available d (m_material_id (fst mat)) w"
        using sp_issue_material_fefo_available[OF Inr] True by simp
      with Cons.prems(2) have "total_available d' (m_material_id (fst mat)) w
              < m_required_qty (fst mat) - m_issued_qty (fst mat)" by simp
      from Cons.IH[OF in_rest this] Inr True show ?thesis by (simp add: Let_def)
    qed
  next
    case False
    have t: "0 \<le> total_available d (m_material_id (fst mat)) w"
      unfolding total_available_def by (intro sum_list_map_nonneg) (auto simp: stock_rows_def)
    with Cons.prems(2) False have "mat \<noteq> m0" by auto
    with Cons.prems(1) have in_rest: "mat \<in> set materials" by simp
    from Cons.IH[OF in_rest Cons.prems(2)] False show ?thesis by (simp add: Let_def)
  qed
qed

lemma issue_materials_rollback:
  "snd (issue_materials now uuid4 d order_id user_id) = Inl e \<Longrightarrow>
   fst (issue_materials now uuid4 d order_id user_id) = d"
  by (auto simp: issue_materials_def split: sum.splits)

text \<open>
  Claim C1. When the total available \<^verbatim>\<open>remain\<close> of a material in the order's warehouse is
  less than the quantity \<^verbatim>\<open>issue_materials\<close> requests for a requirement of the order
  (\<^verbatim>\<open>required_qty - issued_qty\<close>), the call fails with \<open>InsufficientStockError\<close> and the
  database after the call is the database before it: no \<^verbatim>\<open>remain\<close> has changed, whatever
  the requirements handled before the failing one have taken.
\<close>

theorem issue_materials_insufficient_atomic:
  assumes "get_order_details d order_id = Some order"
    and "mat \<in> set (get_order_materials d order_id)"
    and "total_available d (m_material_id (fst mat)) (o_warehouse_id (fst order))
           < m_required_qty (fst mat) - m_issued_qty (fst mat)"
  shows "issue_materials now uuid4 d order_id user_id = (d, Inl InsufficientStockError)"
proof -
  let ?d1 = "d\<lparr>material_issues :=
                         material_issues d
                         @ [\<lparr>mi_id = lastrowid (map mi_id (material_issues d)),
                             mi_issue_no = generate_issue_number now,
                             mi_manufacturing_order_id = order_id,
                             mi_warehouse_id = o_warehouse_id (fst order),
                             mi_status = ''CONFIRMED'',
                             mi_issued_by = user_id,
                             mi_group_id = uuid4\<rparr>]\<rparr>"
  have "total_available ?d1 (m_material_id (fst mat)) (o_warehouse_id (fst order))
         = total_available d (m_material_id (fst mat)) (o_warehouse_id (fst order))"
    by (simp add: total_available_def stock_rows_def)
  with assms(3) have "total_available ?d1 (m_material_id (fst mat)) (o_warehouse_id (fst order))
           < m_required_qty (fst mat) - m_issued_qty (fst mat)" by simp
  from issue_materials_loop_insufficient[OF assms(2) this]
  show ?thesis using assms(1)
    by (simp add: issue_materials_def issue_materials_body_def Let_def)
qed


theorem issue_materials_insufficient_atomic_witness:
  "total_available short_db 2 1 = 15
   \<and> issue_materials ex_now ''g'' short_db 1 7 = (short_db, Inl InsufficientStockError)"
proof -
  have o: "get_order_details short_db 1 =
             Some (ex_order ''CONFIRMED'',
                   \<lparr>bh_id = 1, bh_bom_type = ''KITTING'', bh_product_id = 1, bh_uom = ''PCS'',
                    bh_status = ''ACTIVE'', bh_delete_flag = 0\<rparr>)"
    by (simp add: get_order_details_def order_join_def ex_defs)
  have m: "(ex_requirement 20 0 ''PENDING'', \<lparr>p_id = 2, p_name = ''Bolt''\<rparr>)
             \<in> set (get_order_materials short_db 1)"
    by (simp add: get_order_materials_def ex_defs)
  have t: "total_available short_db 2 1 = 15"
    by (simp add: total_available_def stock_rows_def ex_defs)
  have "total_available short_db
          (m_material_id (fst (ex_requirement 20 0 ''PENDING'', \<lparr>p_id = 2, p_name = ''Bolt''\<rparr>)))
          (o_warehouse_id (fst (ex_order ''CONFIRMED'',
                   \<lparr>bh_id = 1, bh_bom_type = ''KITTING'', bh_product_id = 1, bh_uom = ''PCS'',
                    bh_status = ''ACTIVE'', bh_delete_flag = 0\<rparr>)))
        < m_required_qty (fst (ex_requirement 20 0 ''PENDING'', \<lparr>p_id = 2, p_name = ''Bolt''\<rparr>))
          - m_issued_qty (fst (ex_requirement 20 0 ''PENDING'', \<lparr>p_id = 2, p_name = ''Bolt''\<rparr>))"
    using t by (simp add: ex_requirement_def ex_order_def)
  from issue_materials_insufficient_atomic [OF o m this, of ex_now "''g''" 7] t
  show ?thesis by simp
qed

section \<open>What issuing leaves unchanged\<close>













section \<open>Issuing materials and the status of the order\<close>








section \<open>Completing production\<close>











section \<open>The status of an order\<close>


































section \<open>The bound on issued quantities\<close>


















end
